theory Spec2Isabelle
  imports Complex_Main "HOL-Library.Word"
begin

unbundle bit_operations_syntax

section \<open>Brain tumor detection backend: classification and report pipeline\<close>

text \<open>
  A shallow embedding of \<^verbatim>\<open>app.py\<close>: the rolling hash \<^verbatim>\<open>get_image_hash\<close>, the lookup
  \<^verbatim>\<open>classify_tumor_type\<close> and the per-image loop and summary of \<^verbatim>\<open>generate_report\<close>.

  Python integers are unbounded and are modelled as \<open>int\<close>. Probabilities are Python
  floats; they are modelled as exact reals, so the rounding of \<^verbatim>\<open>probability * 100\<close> in
  binary floating point is outside the model. An image identifier is a base64 data URL,
  modelled as \<open>string\<close>; \<^verbatim>\<open>ord\<close> of a character is \<open>of_char\<close>.
\<close>

subsection \<open>The stable hash\<close>

text \<open>
  \<^verbatim>\<open>
  for char in hash_str:
      hash_value = ((hash_value << 5) - hash_value) + ord(char)
      hash_value = hash_value & 0xFFFFFFFF
  \<close>
\<close>

fun hash_loop :: "int \<Rightarrow> string \<Rightarrow> int" where
  "hash_loop hash_value [] = hash_value"
| "hash_loop hash_value (char # rest) =
     hash_loop (((push_bit 5 hash_value - hash_value) + of_char char) AND 0xFFFFFFFF) rest"

definition get_image_hash :: "string \<Rightarrow> int" where
  "get_image_hash base64_string =
     (let hash_str = (if length base64_string > 100 then take 100 base64_string
                      else base64_string)
      in \<bar>hash_loop 0 hash_str\<bar>)"

subsection \<open>The classification table\<close>

datatype color = green | red | orange | yellow | Color real real real

record tumor_info =
  type :: string
  description :: string
  severity :: string
  color :: color
  characteristics :: "string list"
  risk_level :: string
  treatment :: string

definition no_tumor_detected :: tumor_info where
  "no_tumor_detected = \<lparr>
     type = ''No Tumor Detected'',
     description = ''No abnormal growth or mass detected in the MRI scan. Brain tissue appears normal with no signs of tumorous activity.'',
     severity = ''Normal'',
     color = green,
     characteristics = [
       ''No cancerous or abnormal cells detected'',
       ''Normal brain tissue structure and density'',
       ''Continue regular health checkups and screenings'',
       ''Maintain healthy lifestyle and monitor for symptoms''
     ],
     risk_level = ''No Risk'',
     treatment = ''No treatment required. Continue routine monitoring.''\<rparr>"

definition glioblastoma :: tumor_info where
  "glioblastoma = \<lparr>
     type = ''Glioblastoma (Grade IV Glioma)'',
     description = ''The most aggressive and malignant type of brain tumor. Glioblastoma is a fast-growing tumor that infiltrates surrounding brain tissue. This is the highest grade glioma and requires immediate, aggressive treatment.'',
     severity = ''Critical Risk'',
     color = red,
     characteristics = [
       ''Highly aggressive and rapidly growing'',
       ''Most malignant primary brain tumor'',
       ''Infiltrates surrounding healthy tissue'',
       ''Symptoms: severe headaches, seizures, cognitive changes, personality alterations'',
       ''Average age of diagnosis: 45-70 years'',
       ''Median survival: 12-18 months with treatment''
     ],
     risk_level = ''Critical'',
     treatment = ''Maximal safe surgical resection followed by concurrent radiation and chemotherapy (Temozolomide). Clinical trial participation recommended.''\<rparr>"

definition high_grade_astrocytoma :: tumor_info where
  "high_grade_astrocytoma = \<lparr>
     type = ''High-Grade Astrocytoma (Grade III)'',
     description = ''Aggressive malignant tumor originating from astrocyte cells (star-shaped glial cells). Anaplastic astrocytomas grow quickly and infiltrate brain tissue, requiring urgent intervention.'',
     severity = ''High Risk'',
     color = (Color 0.9 0.1 0.1),
     characteristics = [
       ''Fast-growing malignant tumor'',
       ''Originates from star-shaped glial cells (astrocytes)'',
       ''High degree of cellular abnormality'',
       ''May progress to glioblastoma if untreated'',
       ''Symptoms: focal neurological deficits, seizures, headaches'',
       ''Median survival: 2-5 years with aggressive treatment''
     ],
     risk_level = ''High'',
     treatment = ''Surgery (maximal safe resection) + radiation therapy + chemotherapy. Regular MRI monitoring every 2-3 months.''\<rparr>"

definition atypical_meningioma :: tumor_info where
  "atypical_meningioma = \<lparr>
     type = ''Atypical Meningioma (WHO Grade II)'',
     description = ''Meningioma with atypical features arising from the meningeal tissue (protective membranes covering the brain and spinal cord). While still primarily benign, Grade II meningiomas have higher recurrence rates than Grade I.'',
     severity = ''Moderate-High Risk'',
     color = orange,
     characteristics = [
       ''Arises from meninges (brain protective membranes)'',
       ''Atypical features with higher mitotic activity'',
       ''Slow to moderate growth rate'',
       ''Higher recurrence risk than Grade I (30-40% at 10 years)'',
       ''Common in adults aged 40-70, more frequent in women'',
       ''May cause symptoms through brain compression''
     ],
     risk_level = ''Moderate-High'',
     treatment = ''Complete surgical resection when possible. Post-operative radiation for incomplete resection or recurrence. Annual MRI follow-up.''\<rparr>"

definition oligodendroglioma :: tumor_info where
  "oligodendroglioma = \<lparr>
     type = ''Oligodendroglioma (Grade II-III)'',
     description = ''Tumor originating from oligodendrocyte cells that produce myelin (insulation for nerve fibers). These tumors often have better prognosis than other gliomas and are more responsive to treatment.'',
     severity = ''Moderate Risk'',
     color = (Color 1 0.6 0),
     characteristics = [
       ''Originates from myelin-producing cells'',
       ''Slow to moderate growth pattern'',
       ''Often contains IDH mutation (better prognosis)'',
       ''More chemosensitive than other gliomas'',
       ''Seizures often the first symptom'',
       ''Median survival: 10-15+ years for low-grade''
     ],
     risk_level = ''Moderate'',
     treatment = ''Surgery followed by chemotherapy (PCV or Temozolomide) and/or radiation. Excellent response to treatment in many cases.''\<rparr>"

definition ependymoma :: tumor_info where
  "ependymoma = \<lparr>
     type = ''Ependymoma (Grade II)'',
     description = ''Tumor arising from ependymal cells that line the ventricles (fluid-filled spaces) of the brain and central canal of the spinal cord. Can occur at any age but more common in children.'',
     severity = ''Moderate Risk'',
     color = orange,
     characteristics = [
       ''Originates from ventricular lining cells'',
       ''Can obstruct cerebrospinal fluid (CSF) flow'',
       ''More common in children and young adults'',
       ''May cause hydrocephalus (fluid buildup)'',
       ''Symptoms: headaches, nausea, vision problems'',
       ''Better prognosis with complete surgical removal''
     ],
     risk_level = ''Moderate'',
     treatment = ''Maximal safe surgical resection followed by focal radiation therapy. Chemotherapy for recurrent or residual disease.''\<rparr>"

definition low_grade_astrocytoma :: tumor_info where
  "low_grade_astrocytoma = \<lparr>
     type = ''Low-Grade Astrocytoma (Grade II)'',
     description = ''Slow-growing tumor from astrocyte cells. While less aggressive than high-grade astrocytomas, these tumors can transform into higher-grade tumors over time and require careful monitoring.'',
     severity = ''Moderate Risk'',
     color = (Color 1 0.65 0),
     characteristics = [
       ''Slow-growing, infiltrative tumor'',
       ''Often affects younger adults (20-40 years)'',
       ''May remain stable for years'',
       ''Risk of progression to higher grade (50% at 5-10 years)'',
       ''Seizures common presenting symptom'',
       ''Median survival: 5-10 years, longer with treatment''
     ],
     risk_level = ''Moderate'',
     treatment = ''Observation vs. surgery based on location and symptoms. Radiation and chemotherapy for progressive disease. Close monitoring essential.''\<rparr>"

definition pituitary_adenoma :: tumor_info where
  "pituitary_adenoma = \<lparr>
     type = ''Pituitary Adenoma'',
     description = ''Benign tumor of the pituitary gland located at the base of the brain. These tumors can be functioning (hormone-secreting) or non-functioning. While benign, they can cause significant symptoms through hormone disruption or compression of nearby structures.'',
     severity = ''Low-Moderate Risk'',
     color = (Color 1 0.76 0.03),
     characteristics = [
       ''Benign (non-cancerous) tumor'',
       ''May cause hormonal imbalances (prolactin, growth hormone, ACTH)'',
       ''Can compress optic nerves causing vision problems'',
       ''Often treated successfully with medication'',
       ''Affects adults 30-50 years most commonly'',
       ''Excellent prognosis with appropriate treatment''
     ],
     risk_level = ''Low-Moderate'',
     treatment = ''Medical therapy (dopamine agonists for prolactinomas). Transsphenoidal surgery for large or medication-resistant tumors. Radiation for recurrent cases.''\<rparr>"

definition acoustic_neuroma :: tumor_info where
  "acoustic_neuroma = \<lparr>
     type = ''Acoustic Neuroma (Vestibular Schwannoma)'',
     description = ''Benign tumor on the vestibular nerve (balance and hearing nerve connecting the inner ear to brain). Slow-growing and rarely life-threatening, but can cause hearing loss and balance problems.'',
     severity = ''Low-Moderate Risk'',
     color = (Color 1 0.7 0),
     characteristics = [
       ''Benign slow-growing tumor'',
       ''Arises from Schwann cells on vestibular nerve'',
       ''Unilateral hearing loss and tinnitus common'',
       ''Balance problems and dizziness'',
       ''Rarely becomes malignant'',
       ''Excellent prognosis with treatment''
     ],
     risk_level = ''Low'',
     treatment = ''Observation for small tumors, microsurgery or stereotactic radiosurgery (Gamma Knife) for larger or symptomatic tumors.''\<rparr>"

definition craniopharyngioma :: tumor_info where
  "craniopharyngioma = \<lparr>
     type = ''Craniopharyngioma'',
     description = ''Benign but locally aggressive tumor near the pituitary gland. More common in children (5-14 years) but can occur in adults. Despite being benign, location makes treatment challenging.'',
     severity = ''Low-Moderate Risk'',
     color = (Color 1 0.76 0.03),
     characteristics = [
       ''Benign but can be difficult to completely remove'',
       ''Bimodal age distribution (children 5-14, adults 50-75)'',
       ''May affect growth and sexual development in children'',
       ''Can cause vision loss and hormonal deficiencies'',
       ''Often contains both solid and cystic components'',
       ''High cure rate but may require lifelong hormone replacement''
     ],
     risk_level = ''Low-Moderate'',
     treatment = ''Surgery with or without radiation therapy. Hormone replacement therapy often necessary. Regular endocrine and vision monitoring.''\<rparr>"

definition pineal_region_tumor :: tumor_info where
  "pineal_region_tumor = \<lparr>
     type = ''Pineal Region Tumor'',
     description = ''Tumor occurring in or around the pineal gland, a small structure deep in the center of the brain that produces melatonin. Can be one of several tumor types and may affect sleep-wake cycles.'',
     severity = ''Low-Moderate Risk'',
     color = (Color 1 0.76 0.03),
     characteristics = [
       ''Located in center of brain near critical structures'',
       ''May affect melatonin production and sleep patterns'',
       ''Can obstruct cerebrospinal fluid causing hydrocephalus'',
       ''Multiple tumor subtypes possible'',
       ''May cause Parinaud syndrome (eye movement problems)'',
       ''Prognosis varies by specific tumor type''
     ],
     risk_level = ''Low-Moderate'',
     treatment = ''Depends on specific tumor type. May include biopsy, surgery, chemotherapy, and/or radiation. CSF diversion if hydrocephalus present.''\<rparr>"

definition meningioma_grade_I :: tumor_info where
  "meningioma_grade_I = \<lparr>
     type = ''Meningioma (WHO Grade I)'',
     description = ''The most common primary brain tumor in adults. Benign, slow-growing tumor arising from the meninges (protective membranes covering brain and spinal cord). Excellent prognosis with treatment.'',
     severity = ''Low Risk'',
     color = (Color 1 0.85 0),
     characteristics = [
       ''Most common benign brain tumor (90% benign)'',
       ''Very slow-growing (may take years to cause symptoms)'',
       ''More common in women (2:1 ratio)'',
       ''Peak incidence: 60-70 years old'',
       ''Often discovered incidentally on imaging'',
       ''Excellent prognosis: >90% cure rate with complete resection''
     ],
     risk_level = ''Low'',
     treatment = ''Observation for small asymptomatic tumors. Surgical resection for symptomatic or growing tumors. Stereotactic radiosurgery for surgically inaccessible tumors.''\<rparr>"

definition indeterminate :: tumor_info where
  "indeterminate = \<lparr>
     type = ''Abnormal Growth - Indeterminate Type'',
     description = ''An abnormal tissue pattern or growth has been detected, but the specific nature and classification cannot be definitively determined from the current imaging alone. This requires additional diagnostic workup for proper characterization.'',
     severity = ''Uncertain - Requires Further Evaluation'',
     color = yellow,
     characteristics = [
       ''Abnormality detected on MRI scan'',
       ''Specific tumor type unclear from current imaging'',
       ''May represent benign lesion, low-grade tumor, or imaging artifact'',
       ''Could be inflammatory process or demyelinating lesion'',
       ''Requires correlation with clinical symptoms'',
       ''May need tissue diagnosis (biopsy) for definitive classification''
     ],
     risk_level = ''Uncertain'',
     treatment = ''MRI with contrast enhancement and spectroscopy recommended. Neurology consultation for clinical correlation. Follow-up imaging in 3-6 months to assess stability. Biopsy if progressive or symptomatic.''\<rparr>"

definition tumor_types_high :: "tumor_info list" where
  "tumor_types_high =
     [atypical_meningioma, oligodendroglioma, ependymoma, low_grade_astrocytoma]"

definition tumor_types_moderate :: "tumor_info list" where
  "tumor_types_moderate =
     [pituitary_adenoma, acoustic_neuroma, craniopharyngioma, pineal_region_tumor,
      meningioma_grade_I]"

subsection \<open>Classification\<close>

text \<open>
  The branches are in the order of the source: the \<open>prob \<le> 50\<close> return comes before
  the hash is computed, then \<open>> 85\<close>, \<open>> 70\<close>, \<open>> 55\<close>, and the indeterminate record
  last. A list is indexed by \<^verbatim>\<open>tumor_type_selector % len(list)\<close>, which is always in range.
\<close>

definition classify_tumor_type :: "real \<Rightarrow> string \<Rightarrow> tumor_info" where
  "classify_tumor_type probability image_base64 =
     (let prob = probability * 100 in
      if prob \<le> 50 then no_tumor_detected
      else
        let image_hash = get_image_hash image_base64;
            tumor_type_selector = image_hash mod 5
        in
          if prob > 85 then
            (if tumor_type_selector \<in> {0, 1} then glioblastoma else high_grade_astrocytoma)
          else if prob > 70 then
            tumor_types_high ! nat (tumor_type_selector mod int (length tumor_types_high))
          else if prob > 55 then
            tumor_types_moderate ! nat (tumor_type_selector mod int (length tumor_types_moderate))
          else indeterminate)"

subsection \<open>Report generation\<close>

text \<open>
  Every \<^verbatim>\<open>raise\<close> that the modelled part of \<^verbatim>\<open>generate_report\<close> can reach is a value:
  \<open>IndexError\<close> from \<^verbatim>\<open>images_base64[idx]\<close> and \<open>ZeroDivisionError\<close> from the
  percentages of the summary table.
\<close>

datatype py_error = IndexError | ZeroDivisionError

text \<open>The five status texts of the source, without their leading emoji.\<close>

datatype status =
    POSITIVE_CRITICAL_HIGH_RISK
  | POSITIVE_MODERATE_HIGH_RISK
  | POSITIVE_LOW_MODERATE_RISK
  | POSITIVE_REQUIRES_REVIEW
  | NEGATIVE_NO_TUMOR

definition status_of :: "real \<Rightarrow> status" where
  "status_of probability =
     (if probability > 85 then POSITIVE_CRITICAL_HIGH_RISK
      else if probability > 70 then POSITIVE_MODERATE_HIGH_RISK
      else if probability > 55 then POSITIVE_LOW_MODERATE_RISK
      else if probability > 50 then POSITIVE_REQUIRES_REVIEW
      else NEGATIVE_NO_TUMOR)"

text \<open>
  What one iteration of the loop appends to \<^verbatim>\<open>elements\<close> after the scan header
  \<^verbatim>\<open>MRI Scan #{idx + 1}\<close>: either the result and detail tables (status, the classification
  record, the confidence value) or, from the \<^verbatim>\<open>except\<close> branch, the text
  \<^verbatim>\<open>Image {idx + 1}: Error processing image. Classification: {tumor_info['type']}\<close>.
  The confidence is kept as a number; the source prints it with two decimals.
\<close>

datatype report_section =
    analysis nat status tumor_info real
  | error_text nat string

record report_state =
  positive_count :: nat
  negative_count :: nat
  high_risk_count :: nat
  critical_risk_count :: nat
  tumor_types_found :: "string \<rightharpoonup> nat"
  elements :: "report_section list"

definition initial_state :: report_state where
  "initial_state =
     \<lparr>positive_count = 0, negative_count = 0, high_risk_count = 0,
      critical_risk_count = 0, tumor_types_found = Map.empty, elements = []\<rparr>"

text \<open>
  \<^verbatim>\<open>
  if ',' in images_base64[idx]: img_data = images_base64[idx].split(',')[1]
  else: img_data = images_base64[idx]
  \<close>
\<close>

definition img_data :: "string \<Rightarrow> string" where
  "img_data image_b64 =
     (if CHR '','' \<in> set image_b64
      then takeWhile (\<lambda>c. c \<noteq> CHR '','') (tl (dropWhile (\<lambda>c. c \<noteq> CHR '','') image_b64))
      else image_b64)"

text \<open>\<^verbatim>\<open>tumor_types_found[tumor_type] = tumor_types_found.get(tumor_type, 0) + 1\<close>\<close>

definition get_count :: "(string \<rightharpoonup> nat) \<Rightarrow> string \<Rightarrow> nat" where
  "get_count d k = (case d k of None \<Rightarrow> 0 | Some c \<Rightarrow> c)"

text \<open>
  The counters of one item (the \<^verbatim>\<open>if is_positive: ... else: ...\<close> block of the loop):
  a positive item counts as positive, as critical above 85, else as high above 70, and
  enters the histogram of tumor types under the \<^verbatim>\<open>type\<close> of its record; any other item
  counts as negative.
\<close>

definition update_counts :: "real \<Rightarrow> tumor_info \<Rightarrow> report_state \<Rightarrow> report_state" where
  "update_counts prob tumor_info st =
     (let probability = prob * 100;
          is_positive = (prob > 0.5)
      in if is_positive then
           let st2 = st\<lparr>positive_count := positive_count st + 1\<rparr>;
               st3 = (if probability > 85
                      then st2\<lparr>critical_risk_count := critical_risk_count st2 + 1\<rparr>
                      else if probability > 70
                      then st2\<lparr>high_risk_count := high_risk_count st2 + 1\<rparr>
                      else st2);
               tumor_type = type tumor_info
           in st3\<lparr>tumor_types_found :=
                    (tumor_types_found st3)
                      (tumor_type \<mapsto> get_count (tumor_types_found st3) tumor_type + 1)\<rparr>
         else st\<lparr>negative_count := negative_count st + 1\<rparr>)"

text \<open>
  The \<^verbatim>\<open>try\<close> / \<^verbatim>\<open>except Exception\<close> of one item. The parameter \<open>embed_image\<close> stands
  for the external decoding and embedding of the image (\<^verbatim>\<open>base64.b64decode\<close>,
  \<^verbatim>\<open>PILImage.open\<close>, \<^verbatim>\<open>save\<close>, \<^verbatim>\<open>RLImage\<close>): it is \<open>False\<close> where one of them raises.
  They run before anything is appended, so a failing item leaves the error text only.
\<close>

definition image_section ::
  "(string \<Rightarrow> bool) \<Rightarrow> nat \<Rightarrow> real \<Rightarrow> string \<Rightarrow> tumor_info \<Rightarrow> report_section" where
  "image_section embed_image idx prob image_b64 tumor_info =
     (let probability = prob * 100;
          is_positive = (prob > 0.5)
      in if embed_image (img_data image_b64) then
           analysis (idx + 1) (status_of probability) tumor_info
             (if is_positive then probability else 100 - probability)
         else error_text (idx + 1) (type tumor_info))"

text \<open>
  The body of the loop for one item whose image string has been read: classify, count,
  then append the section.
\<close>

definition process_item ::
  "(string \<Rightarrow> bool) \<Rightarrow> nat \<Rightarrow> real \<Rightarrow> string \<Rightarrow> report_state \<Rightarrow> report_state" where
  "process_item embed_image idx prob image_b64 st =
     (let tumor_info = classify_tumor_type prob image_b64;
          st1 = update_counts prob tumor_info st
      in st1\<lparr>elements :=
               elements st1 @ [image_section embed_image idx prob image_b64 tumor_info]\<rparr>)"

text \<open>
  \<^verbatim>\<open>for idx, prob in enumerate(predictions.get('result', [])):\<close> The image is read as
  \<^verbatim>\<open>images_base64[idx]\<close> in the argument list of \<^verbatim>\<open>classify_tumor_type\<close>, outside the
  \<^verbatim>\<open>try\<close> of the item, so an index past the end of the image list ends the loop with
  \<open>IndexError\<close>.
\<close>

fun process_images ::
  "(string \<Rightarrow> bool) \<Rightarrow> string list \<Rightarrow> nat \<Rightarrow> real list \<Rightarrow> report_state
     \<Rightarrow> py_error + report_state" where
  "process_images embed_image images_base64 idx [] st = Inr st"
| "process_images embed_image images_base64 idx (prob # rest) st =
     (if idx < length images_base64
      then process_images embed_image images_base64 (Suc idx) rest
             (process_item embed_image idx prob (images_base64 ! idx) st)
      else Inl IndexError)"

text \<open>
  One row of the summary table: \<^verbatim>\<open>count/total_images*100\<close>, which raises
  \<^verbatim>\<open>ZeroDivisionError\<close> when \<^verbatim>\<open>total_images\<close> is 0.
\<close>

definition percentage_of :: "nat \<Rightarrow> nat \<Rightarrow> py_error + real" where
  "percentage_of n total_images =
     (if total_images = 0 then Inl ZeroDivisionError
      else Inr (real n / real total_images * 100))"

record report =
  sections :: "report_section list"
  total_scans :: nat
  positive_findings :: "nat \<times> real"
  critical_risk_cases :: "nat \<times> real"
  high_risk_cases :: "nat \<times> real"
  negative_findings :: "nat \<times> real"
  tumor_types :: "string \<rightharpoonup> nat"

definition summary_statistics :: "report_state \<Rightarrow> nat \<Rightarrow> py_error + report" where
  "summary_statistics st total_images =
     (case percentage_of (positive_count st) total_images of Inl e \<Rightarrow> Inl e | Inr pp \<Rightarrow>
      case percentage_of (critical_risk_count st) total_images of Inl e \<Rightarrow> Inl e | Inr cp \<Rightarrow>
      case percentage_of (high_risk_count st) total_images of Inl e \<Rightarrow> Inl e | Inr hp \<Rightarrow>
      case percentage_of (negative_count st) total_images of Inl e \<Rightarrow> Inl e | Inr np \<Rightarrow>
        Inr \<lparr>sections = elements st,
             total_scans = total_images,
             positive_findings = (positive_count st, pp),
             critical_risk_cases = (critical_risk_count st, cp),
             high_risk_cases = (high_risk_count st, hp),
             negative_findings = (negative_count st, np),
             tumor_types = tumor_types_found st\<rparr>)"

text \<open>The body of the outer \<^verbatim>\<open>try\<close>: the loop, then the summary over \<^verbatim>\<open>len(result)\<close>.\<close>

definition compose_report ::
  "(string \<Rightarrow> bool) \<Rightarrow> string list \<Rightarrow> real list \<Rightarrow> py_error + report" where
  "compose_report embed_image images_base64 result =
     (case process_images embed_image images_base64 0 result initial_state of
        Inl e \<Rightarrow> Inl e
      | Inr st \<Rightarrow> summary_statistics st (length result))"

text \<open>
  The route handler: the PDF attachment when the body returns, and the
  \<^verbatim>\<open>except Exception\<close> at its end, which answers with status 500 and no PDF. The
  sections after the summary table are fixed text, and \<^verbatim>\<open>doc.build\<close> belongs to the
  external renderer; neither is modelled as a source of errors.
\<close>

datatype response = pdf_attachment report | error_500 py_error

definition generate_report ::
  "(string \<Rightarrow> bool) \<Rightarrow> string list \<Rightarrow> real list \<Rightarrow> response" where
  "generate_report embed_image images_base64 result =
     (case compose_report embed_image images_base64 result of
        Inl e \<Rightarrow> error_500 e
      | Inr r \<Rightarrow> pdf_attachment r)"

subsection \<open>The hash as the specification words it\<close>

text \<open>
  The specification's reading of the return value, used for comparison only: the absolute
  value of the final accumulator read as a signed 32-bit integer.
\<close>

definition spec_signed_abs_hash :: "string \<Rightarrow> int" where
  "spec_signed_abs_hash s = \<bar>sint (word_of_int (hash_loop 0 (take 100 s)) :: 32 word)\<bar>"

section \<open>Properties of the hash\<close>

lemma and_mask32: "(x::int) AND 0xFFFFFFFF = x mod 2 ^ 32"
proof -
  have "(0xFFFFFFFF::int) = mask 32" by (simp add: mask_eq_exp_minus_1)
  then show ?thesis by (simp only: take_bit_eq_mask [symmetric] take_bit_eq_mod)
qed

lemma hash_step:
  "((push_bit 5 h - h) + c) AND 0xFFFFFFFF = (h * 31 + c) mod 2 ^ 32" for h c :: int
  by (simp add: and_mask32 push_bit_eq_mult algebra_simps)

lemma hash_loop_foldl:
  "hash_loop h s = foldl (\<lambda>h c. (h * 31 + of_char c) mod 2 ^ 32) h s"
  by (induction s arbitrary: h) (simp_all only: hash_loop.simps foldl.simps hash_step)

lemma hash_loop_bounds:
  "0 \<le> h \<Longrightarrow> h < 2 ^ 32 \<Longrightarrow> 0 \<le> hash_loop h s \<and> hash_loop h s < 2 ^ 32"
  by (induction s arbitrary: h) (simp_all only: hash_loop.simps hash_step, simp_all)

lemma get_image_hash_take: "get_image_hash s = hash_loop 0 (take 100 s)"
proof -
  have nonneg: "0 \<le> hash_loop 0 (take 100 s)"
    using hash_loop_bounds [of 0 "take 100 s"] by simp
  have "(if length s > 100 then take 100 s else s) = take 100 s" by simp
  then have "get_image_hash s = \<bar>hash_loop 0 (take 100 s)\<bar>"
    by (simp only: get_image_hash_def Let_def)
  with nonneg show ?thesis by simp
qed

text \<open>
  Claim C3, as stated, fails: the accumulator is masked to \<open>[0, 2^32)\<close> and never read as a
  signed value, so \<^verbatim>\<open>abs\<close> changes nothing. For the identifier \<^verbatim>\<open>zzzzzz\<close> the final
  accumulator is 3609181632, at least \<open>2^31\<close>, and the function returns it as it is, where
  the signed reading would give \<open>2^32 - 3609181632 = 685785664\<close>.
\<close>

theorem get_image_hash_not_signed_abs:
  "get_image_hash ''zzzzzz'' = 3609181632
   \<and> spec_signed_abs_hash ''zzzzzz'' = 685785664
   \<and> get_image_hash ''zzzzzz'' \<noteq> spec_signed_abs_hash ''zzzzzz''"
  by (simp add: get_image_hash_def spec_signed_abs_hash_def)

text \<open>
  Claim C3, amended: for every identifier \<open>s\<close> the hash is computed over the first 100
  characters of \<open>s\<close> (all of \<open>s\<close> if it is shorter) by the step \<open>h := (h * 31 + c) mod 2^32\<close>,
  which is what \<^verbatim>\<open>((h << 5) - h + c) & 0xFFFFFFFF\<close> computes; the value returned is the
  final masked accumulator itself, a non-negative integer below \<open>2^32\<close>.
\<close>

theorem get_image_hash_masked:
  "get_image_hash s = foldl (\<lambda>h c. (h * 31 + of_char c) mod 2 ^ 32) 0 (take 100 s)
   \<and> get_image_hash s = hash_loop 0 (take 100 s)
   \<and> 0 \<le> get_image_hash s \<and> get_image_hash s < 2 ^ 32"
proof -
  have "get_image_hash s = hash_loop 0 (take 100 s)"
    by (rule get_image_hash_take)
  moreover have "hash_loop 0 (take 100 s)
      = foldl (\<lambda>h c. (h * 31 + of_char c) mod 2 ^ 32) 0 (take 100 s)"
    by (rule hash_loop_foldl)
  moreover have "0 \<le> hash_loop 0 (take 100 s) \<and> hash_loop 0 (take 100 s) < 2 ^ 32"
    by (rule hash_loop_bounds) simp_all
  ultimately show ?thesis by (simp only:)
qed

text \<open>
  Claim C6: the hash and the classification are functions of the probability and of the
  first 100 characters of the identifier only. Two identifiers with the same first 100
  characters have the same hash and, for every probability, the same classification
  record. (Determinism itself is built into the model: both are HOL functions of their
  arguments, as the source reads no other state.)
\<close>

theorem hash_classify_prefix:
  "take 100 s1 = take 100 s2 \<Longrightarrow>
     get_image_hash s1 = get_image_hash s2
     \<and> classify_tumor_type p s1 = classify_tumor_type p s2"
proof -
  assume "take 100 s1 = take 100 s2"
  then have h: "get_image_hash s1 = get_image_hash s2"
    by (simp only: get_image_hash_take)
  then show ?thesis
    by (simp only: classify_tumor_type_def)
qed

theorem hash_classify_prefix_witness:
  "replicate 150 CHR ''x'' \<noteq> replicate 100 CHR ''x'' @ ''DIFFERENT_TAIL''
   \<and> take 100 (replicate 150 CHR ''x'') = take 100 (replicate 100 CHR ''x'' @ ''DIFFERENT_TAIL'')
   \<and> get_image_hash (replicate 150 CHR ''x'')
       = get_image_hash (replicate 100 CHR ''x'' @ ''DIFFERENT_TAIL'')
   \<and> classify_tumor_type 0.6 (replicate 150 CHR ''x'')
       = classify_tumor_type 0.6 (replicate 100 CHR ''x'' @ ''DIFFERENT_TAIL'')"
proof -
  have ne: "replicate 150 CHR ''x'' \<noteq> replicate 100 CHR ''x'' @ ''DIFFERENT_TAIL''"
  proof
    assume "replicate 150 CHR ''x'' = replicate 100 CHR ''x'' @ ''DIFFERENT_TAIL''"
    then have "length (replicate 150 CHR ''x'')
        = length (replicate 100 CHR ''x'' @ ''DIFFERENT_TAIL'')"
      by (rule arg_cong)
    then show False by simp
  qed
  have pre: "take 100 (replicate 150 CHR ''x'')
      = take 100 (replicate 100 CHR ''x'' @ ''DIFFERENT_TAIL'')"
    by simp
  show ?thesis
    using ne pre hash_classify_prefix [OF pre, of "0.6"] by simp
qed

section \<open>Properties of the classification\<close>

lemma length_tumor_types: "length tumor_types_high = 4" "length tumor_types_moderate = 5"
  by (simp_all add: tumor_types_high_def tumor_types_moderate_def)

lemma classify_le_50: "p * 100 \<le> 50 \<Longrightarrow> classify_tumor_type p s = no_tumor_detected"
  by (simp add: classify_tumor_type_def Let_def)

lemma classify_gt_85:
  "85 < p * 100 \<Longrightarrow> classify_tumor_type p s =
     (if get_image_hash s mod 5 \<in> {0, 1} then glioblastoma else high_grade_astrocytoma)"
  by (simp add: classify_tumor_type_def Let_def)

lemma classify_70_85:
  "70 < p * 100 \<Longrightarrow> p * 100 \<le> 85 \<Longrightarrow>
     classify_tumor_type p s = tumor_types_high ! nat (get_image_hash s mod 5 mod 4)"
  by (simp add: classify_tumor_type_def Let_def length_tumor_types)

lemma classify_55_70:
  "55 < p * 100 \<Longrightarrow> p * 100 \<le> 70 \<Longrightarrow>
     classify_tumor_type p s = tumor_types_moderate ! nat (get_image_hash s mod 5)"
  by (simp add: classify_tumor_type_def Let_def length_tumor_types)

lemma classify_50_55:
  "50 < p * 100 \<Longrightarrow> p * 100 \<le> 55 \<Longrightarrow> classify_tumor_type p s = indeterminate"
  by (simp add: classify_tumor_type_def Let_def)

lemma selector_range: "nat (h mod 5) < 5" "nat (h mod 5 mod 4) < 4" for h :: int
  by simp_all

lemma types_high: "map type tumor_types_high =
  [''Atypical Meningioma (WHO Grade II)'', ''Oligodendroglioma (Grade II-III)'',
   ''Ependymoma (Grade II)'', ''Low-Grade Astrocytoma (Grade II)'']"
  by (simp add: tumor_types_high_def atypical_meningioma_def oligodendroglioma_def
      ependymoma_def low_grade_astrocytoma_def)

lemma types_moderate: "map type tumor_types_moderate =
  [''Pituitary Adenoma'', ''Acoustic Neuroma (Vestibular Schwannoma)'', ''Craniopharyngioma'',
   ''Pineal Region Tumor'', ''Meningioma (WHO Grade I)'']"
  by (simp add: tumor_types_moderate_def pituitary_adenoma_def acoustic_neuroma_def
      craniopharyngioma_def pineal_region_tumor_def meningioma_grade_I_def)

lemma distinct_types: "distinct (map type tumor_types_high)" "distinct (map type tumor_types_moderate)"
  by (simp_all only: types_high types_moderate, simp_all)

lemma type_no_tumor: "type no_tumor_detected = ''No Tumor Detected''"
  by (simp add: no_tumor_detected_def)
lemma type_indeterminate: "type indeterminate = ''Abnormal Growth - Indeterminate Type''"
  by (simp add: indeterminate_def)
lemma type_glioblastoma: "type glioblastoma = ''Glioblastoma (Grade IV Glioma)''"
  by (simp add: glioblastoma_def)
lemma type_high_grade: "type high_grade_astrocytoma = ''High-Grade Astrocytoma (Grade III)''"
  by (simp add: high_grade_astrocytoma_def)

lemma glio_neq: "glioblastoma \<noteq> high_grade_astrocytoma"
proof
  assume "glioblastoma = high_grade_astrocytoma"
  then have "type glioblastoma = type high_grade_astrocytoma" by (rule arg_cong)
  then show False by (simp add: type_glioblastoma type_high_grade)
qed

lemma no_tumor_neq_indet: "no_tumor_detected \<noteq> indeterminate"
proof
  assume "no_tumor_detected = indeterminate"
  then have "type no_tumor_detected = type indeterminate" by (rule arg_cong)
  then show False by (simp add: type_no_tumor type_indeterminate)
qed

lemma nth_mem_high: "tumor_types_high ! nat (h mod 5 mod 4) \<in> set tumor_types_high" for h :: int
  by (rule nth_mem) (simp add: length_tumor_types)
lemma nth_mem_moderate: "tumor_types_moderate ! nat (h mod 5) \<in> set tumor_types_moderate" for h :: int
  by (rule nth_mem) (simp add: length_tumor_types)

text \<open>
  Claim C1: with \<open>prob = p * 100\<close>, the bucket is decided by strict \<open>>\<close> comparisons, so a
  boundary value belongs to the bucket below it. \<open>prob \<le> 50\<close> gives the fixed "No Tumor
  Detected" record (severity Normal, risk level No Risk); \<open>50 < prob \<le> 55\<close> the fixed
  indeterminate record (severity Uncertain); \<open>55 < prob \<le> 70\<close> one of the 5 records of
  \<open>tumor_types_moderate\<close>; \<open>70 < prob \<le> 85\<close> one of the 4 records of \<open>tumor_types_high\<close>;
  \<open>prob > 85\<close> one of the two top records. The probabilities 0.50 and 0.5000001 fall in
  different buckets, whatever the identifier.
\<close>

theorem classify_buckets:
  "(p * 100 \<le> 50 \<longrightarrow> classify_tumor_type p s = no_tumor_detected)
   \<and> (50 < p * 100 \<and> p * 100 \<le> 55 \<longrightarrow> classify_tumor_type p s = indeterminate)
   \<and> (55 < p * 100 \<and> p * 100 \<le> 70 \<longrightarrow> classify_tumor_type p s \<in> set tumor_types_moderate)
   \<and> (70 < p * 100 \<and> p * 100 \<le> 85 \<longrightarrow> classify_tumor_type p s \<in> set tumor_types_high)
   \<and> (85 < p * 100 \<longrightarrow> classify_tumor_type p s \<in> {glioblastoma, high_grade_astrocytoma})
   \<and> length tumor_types_moderate = 5 \<and> distinct (map type tumor_types_moderate)
   \<and> length tumor_types_high = 4 \<and> distinct (map type tumor_types_high)
   \<and> type no_tumor_detected = ''No Tumor Detected''
   \<and> severity no_tumor_detected = ''Normal'' \<and> risk_level no_tumor_detected = ''No Risk''
   \<and> type indeterminate = ''Abnormal Growth - Indeterminate Type''
   \<and> severity indeterminate = ''Uncertain - Requires Further Evaluation''
   \<and> risk_level indeterminate = ''Uncertain''
   \<and> classify_tumor_type 0.50 s = no_tumor_detected
   \<and> classify_tumor_type 0.5000001 s = indeterminate
   \<and> classify_tumor_type 0.50 s \<noteq> classify_tumor_type 0.5000001 s"
proof -
  have a: "classify_tumor_type 0.50 s = no_tumor_detected"
    by (rule classify_le_50) simp
  have b: "classify_tumor_type 0.5000001 s = indeterminate"
    by (rule classify_50_55) simp_all
  have c: "severity no_tumor_detected = ''Normal'' \<and> risk_level no_tumor_detected = ''No Risk''"
    by (simp add: no_tumor_detected_def)
  have d: "severity indeterminate = ''Uncertain - Requires Further Evaluation''
      \<and> risk_level indeterminate = ''Uncertain''"
    by (simp add: indeterminate_def)
  have e: "85 < p * 100 \<longrightarrow> classify_tumor_type p s \<in> {glioblastoma, high_grade_astrocytoma}"
    by (simp add: classify_gt_85)
  have f: "70 < p * 100 \<and> p * 100 \<le> 85 \<longrightarrow> classify_tumor_type p s \<in> set tumor_types_high"
    using classify_70_85 [of p s] nth_mem_high [of "get_image_hash s"] by simp
  have g: "55 < p * 100 \<and> p * 100 \<le> 70 \<longrightarrow> classify_tumor_type p s \<in> set tumor_types_moderate"
    using classify_55_70 [of p s] nth_mem_moderate [of "get_image_hash s"] by simp
  have h: "50 < p * 100 \<and> p * 100 \<le> 55 \<longrightarrow> classify_tumor_type p s = indeterminate"
    using classify_50_55 by blast
  have i: "p * 100 \<le> 50 \<longrightarrow> classify_tumor_type p s = no_tumor_detected"
    using classify_le_50 by blast
  from a b have j: "classify_tumor_type 0.50 s \<noteq> classify_tumor_type 0.5000001 s"
    by (simp only: no_tumor_neq_indet not_False_eq_True)
  from a b c d e f g h i j show ?thesis
    by (simp only: length_tumor_types distinct_types type_no_tumor type_indeterminate simp_thms)
qed


lemma hash_values:
  "get_image_hash ''A'' = 65" "get_image_hash ''B'' = 66" "get_image_hash ''C'' = 67"
  "get_image_hash ''D'' = 68" "get_image_hash ''E'' = 69" "get_image_hash ''F'' = 70"
  "get_image_hash ''I'' = 73"
  by (simp_all add: get_image_hash_def)

theorem classify_buckets_witness:
  "(0.30::real) * 100 \<le> 50 \<and> classify_tumor_type 0.30 ''A'' = no_tumor_detected
   \<and> 50 < (0.53::real) * 100 \<and> (0.53::real) * 100 \<le> 55
   \<and> classify_tumor_type 0.53 ''A'' = indeterminate
   \<and> 55 < (0.60::real) * 100 \<and> (0.60::real) * 100 \<le> 70
   \<and> classify_tumor_type 0.60 ''A'' \<in> set tumor_types_moderate
   \<and> 70 < (0.80::real) * 100 \<and> (0.80::real) * 100 \<le> 85
   \<and> classify_tumor_type 0.80 ''A'' \<in> set tumor_types_high
   \<and> 85 < (0.92::real) * 100
   \<and> classify_tumor_type 0.92 ''A'' \<in> {glioblastoma, high_grade_astrocytoma}"
  using classify_buckets [of "0.30" "''A''"] classify_buckets [of "0.53" "''A''"]
    classify_buckets [of "0.60" "''A''"] classify_buckets [of "0.80" "''A''"]
    classify_buckets [of "0.92" "''A''"]
  by simp

lemma high_neq: "atypical_meningioma \<noteq> low_grade_astrocytoma" "atypical_meningioma \<noteq> oligodendroglioma"
  by (simp_all add: atypical_meningioma_def low_grade_astrocytoma_def oligodendroglioma_def)

text \<open>
  Claim C2, as stated, fails in the bucket of 4 candidates: the selector is
  \<open>hash mod 5\<close> and the index is \<open>(hash mod 5) mod 4\<close>, not \<open>hash mod 4\<close>. The identifiers
  \<^verbatim>\<open>A\<close> (hash 65) and \<^verbatim>\<open>I\<close> (hash 73) agree modulo 4 and get different records at
  probability 0.80, and the record of \<^verbatim>\<open>A\<close> is not the one at index \<open>65 mod 4\<close>.
\<close>

theorem selector_is_not_hash_mod_4:
  "get_image_hash ''A'' mod 4 = get_image_hash ''I'' mod 4
   \<and> classify_tumor_type 0.80 ''A'' = atypical_meningioma
   \<and> classify_tumor_type 0.80 ''I'' = low_grade_astrocytoma
   \<and> classify_tumor_type 0.80 ''A'' \<noteq> classify_tumor_type 0.80 ''I''
   \<and> tumor_types_high ! nat (get_image_hash ''A'' mod 4) = oligodendroglioma
   \<and> classify_tumor_type 0.80 ''A'' \<noteq> tumor_types_high ! nat (get_image_hash ''A'' mod 4)"
proof -
  have a: "classify_tumor_type 0.80 ''A'' = atypical_meningioma"
    by (simp add: classify_70_85 hash_values tumor_types_high_def)
  have i: "classify_tumor_type 0.80 ''I'' = low_grade_astrocytoma"
    by (simp add: classify_70_85 hash_values tumor_types_high_def)
  have o: "tumor_types_high ! nat (get_image_hash ''A'' mod 4) = oligodendroglioma"
    by (simp add: hash_values tumor_types_high_def)
  have m: "get_image_hash ''A'' mod 4 = get_image_hash ''I'' mod 4"
    by (simp add: hash_values)
  from a i o m show ?thesis by (simp only: high_neq simp_thms)
qed

text \<open>
  Claim C2, amended: the selector is \<open>hash(identifier) mod 5\<close> in every bucket. In the
  55-70 bucket (5 candidates) the index of the record chosen is \<open>hash mod 5\<close>; in the
  70-85 bucket (4 candidates) it is \<open>(hash mod 5) mod 4\<close>; both are in range. Two
  identifiers with the same value of \<open>hash mod 5\<close> yield the same record, in every bucket.
\<close>

theorem classify_selector:
  "(55 < p * 100 \<and> p * 100 \<le> 70 \<longrightarrow>
      classify_tumor_type p s = tumor_types_moderate ! nat (get_image_hash s mod 5)
      \<and> nat (get_image_hash s mod 5) < length tumor_types_moderate)
   \<and> (70 < p * 100 \<and> p * 100 \<le> 85 \<longrightarrow>
      classify_tumor_type p s = tumor_types_high ! nat (get_image_hash s mod 5 mod 4)
      \<and> nat (get_image_hash s mod 5 mod 4) < length tumor_types_high)
   \<and> (get_image_hash s mod 5 = get_image_hash s' mod 5 \<longrightarrow>
      classify_tumor_type p s = classify_tumor_type p s')"
proof -
  have a: "55 < p * 100 \<and> p * 100 \<le> 70 \<longrightarrow>
      classify_tumor_type p s = tumor_types_moderate ! nat (get_image_hash s mod 5)
      \<and> nat (get_image_hash s mod 5) < length tumor_types_moderate"
  proof (intro impI conjI)
    assume "55 < p * 100 \<and> p * 100 \<le> 70"
    then show "classify_tumor_type p s = tumor_types_moderate ! nat (get_image_hash s mod 5)"
      using classify_55_70 by blast
    show "nat (get_image_hash s mod 5) < length tumor_types_moderate"
      by (simp only: length_tumor_types selector_range)
  qed
  have b: "70 < p * 100 \<and> p * 100 \<le> 85 \<longrightarrow>
      classify_tumor_type p s = tumor_types_high ! nat (get_image_hash s mod 5 mod 4)
      \<and> nat (get_image_hash s mod 5 mod 4) < length tumor_types_high"
  proof (intro impI conjI)
    assume "70 < p * 100 \<and> p * 100 \<le> 85"
    then show "classify_tumor_type p s = tumor_types_high ! nat (get_image_hash s mod 5 mod 4)"
      using classify_70_85 by blast
    show "nat (get_image_hash s mod 5 mod 4) < length tumor_types_high"
      by (simp only: length_tumor_types selector_range)
  qed
  have c: "get_image_hash s mod 5 = get_image_hash s' mod 5 \<longrightarrow>
      classify_tumor_type p s = classify_tumor_type p s'"
    by (simp add: classify_tumor_type_def Let_def)
  from a b c show ?thesis by (simp only: simp_thms)
qed

theorem classify_selector_witness:
  "55 < (0.60::real) * 100 \<and> (0.60::real) * 100 \<le> 70
   \<and> classify_tumor_type 0.60 ''D'' = tumor_types_moderate ! nat (get_image_hash ''D'' mod 5)
   \<and> 70 < (0.80::real) * 100 \<and> (0.80::real) * 100 \<le> 85
   \<and> classify_tumor_type 0.80 ''E'' = tumor_types_high ! nat (get_image_hash ''E'' mod 5 mod 4)
   \<and> get_image_hash ''A'' mod 5 = get_image_hash ''F'' mod 5
   \<and> classify_tumor_type 0.80 ''A'' = classify_tumor_type 0.80 ''F''"
proof -
  have h1: "55 < (0.60::real) * 100 \<and> (0.60::real) * 100 \<le> 70" by simp
  have h2: "70 < (0.80::real) * 100 \<and> (0.80::real) * 100 \<le> 85" by simp
  have h3: "get_image_hash ''A'' mod 5 = get_image_hash ''F'' mod 5"
    by (simp add: hash_values)
  from h1 classify_selector [of "0.60" "''D''" "''D''"]
  have c1: "classify_tumor_type 0.60 ''D''
      = tumor_types_moderate ! nat (get_image_hash ''D'' mod 5)"
    by blast
  from h2 classify_selector [of "0.80" "''E''" "''E''"]
  have c2: "classify_tumor_type 0.80 ''E''
      = tumor_types_high ! nat (get_image_hash ''E'' mod 5 mod 4)"
    by blast
  from h3 classify_selector [of "0.80" "''A''" "''F''"]
  have c3: "classify_tumor_type 0.80 ''A'' = classify_tumor_type 0.80 ''F''"
    by blast
  from h1 h2 h3 c1 c2 c3 show ?thesis by blast
qed

lemma selector_split: "(h mod 5 \<in> {2, 3, 4}) = (h mod 5 \<notin> {0, 1})" for h :: int
proof -
  have "0 \<le> h mod 5" "h mod 5 < 5" by simp_all
  then show ?thesis by (simp only: insert_iff empty_iff) arith
qed

text \<open>
  Claim C4: for \<open>p * 100 > 85\<close> the record is Glioblastoma (severity Critical Risk) exactly
  when \<open>hash mod 5\<close> is 0 or 1, and High-Grade Astrocytoma (High Risk) exactly when it is
  2, 3 or 4: two selector values of five against three, not a split on \<open>hash mod 2\<close>.
\<close>

theorem classify_above_85:
  "85 < p * 100 \<Longrightarrow>
     classify_tumor_type p s =
       (if get_image_hash s mod 5 \<in> {0, 1} then glioblastoma else high_grade_astrocytoma)
     \<and> (classify_tumor_type p s = glioblastoma) = (get_image_hash s mod 5 \<in> {0, 1})
     \<and> (classify_tumor_type p s = high_grade_astrocytoma) = (get_image_hash s mod 5 \<in> {2, 3, 4})
     \<and> type glioblastoma = ''Glioblastoma (Grade IV Glioma)''
     \<and> severity glioblastoma = ''Critical Risk'' \<and> risk_level glioblastoma = ''Critical''
     \<and> type high_grade_astrocytoma = ''High-Grade Astrocytoma (Grade III)''
     \<and> severity high_grade_astrocytoma = ''High Risk'' \<and> risk_level high_grade_astrocytoma = ''High''"
proof -
  assume p: "85 < p * 100"
  have r: "(get_image_hash s mod 5 \<in> {2, 3, 4}) = (get_image_hash s mod 5 \<notin> {0, 1})"
    by (rule selector_split)
  have c: "classify_tumor_type p s =
       (if get_image_hash s mod 5 \<in> {0, 1} then glioblastoma else high_grade_astrocytoma)"
    using p by (rule classify_gt_85)
  have g: "(classify_tumor_type p s = glioblastoma) = (get_image_hash s mod 5 \<in> {0, 1})"
    using glio_neq by (simp add: c)
  have h: "(classify_tumor_type p s = high_grade_astrocytoma) = (get_image_hash s mod 5 \<in> {2, 3, 4})"
    using glio_neq by (simp only: c r split: if_split) simp
  have f: "severity glioblastoma = ''Critical Risk'' \<and> risk_level glioblastoma = ''Critical''
     \<and> severity high_grade_astrocytoma = ''High Risk'' \<and> risk_level high_grade_astrocytoma = ''High''"
    by (simp add: glioblastoma_def high_grade_astrocytoma_def)
  from c g h f show ?thesis by (simp only: type_glioblastoma type_high_grade simp_thms)
qed

theorem classify_above_85_witness:
  "85 < (0.92::real) * 100
   \<and> classify_tumor_type 0.92 ''A'' = glioblastoma \<and> classify_tumor_type 0.92 ''B'' = glioblastoma
   \<and> classify_tumor_type 0.92 ''C'' = high_grade_astrocytoma
   \<and> classify_tumor_type 0.92 ''D'' = high_grade_astrocytoma
   \<and> classify_tumor_type 0.92 ''E'' = high_grade_astrocytoma"
proof -
  have p: "85 < (0.92::real) * 100" by simp
  have a: "classify_tumor_type 0.92 ''A'' = glioblastoma"
    using classify_above_85 [OF p, of "''A''"] by (simp add: hash_values)
  have b: "classify_tumor_type 0.92 ''B'' = glioblastoma"
    using classify_above_85 [OF p, of "''B''"] by (simp add: hash_values)
  have c: "classify_tumor_type 0.92 ''C'' = high_grade_astrocytoma"
    using classify_above_85 [OF p, of "''C''"] by (simp add: hash_values)
  have d: "classify_tumor_type 0.92 ''D'' = high_grade_astrocytoma"
    using classify_above_85 [OF p, of "''D''"] by (simp add: hash_values)
  have e: "classify_tumor_type 0.92 ''E'' = high_grade_astrocytoma"
    using classify_above_85 [OF p, of "''E''"] by (simp add: hash_values)
  from p a b c d e show ?thesis by blast
qed

section \<open>Properties of report generation\<close>

lemma process_images_Inl:
  "idx \<le> length images_base64 \<Longrightarrow> length images_base64 < idx + length rs \<Longrightarrow>
     process_images e images_base64 idx rs st = Inl IndexError"
  by (induction rs arbitrary: idx st) simp_all

lemma process_images_Inr:
  "idx + length rs \<le> length images_base64 \<Longrightarrow>
     process_images e images_base64 idx rs st =
       Inr (foldl (\<lambda>s (i, p). process_item e i p (images_base64 ! i) s) st (enumerate idx rs))"
  by (induction rs arbitrary: idx st) simp_all

lemma update_counts_fields:
  "positive_count (update_counts p ti st) = positive_count st + (if p > 0.5 then 1 else 0)"
  "negative_count (update_counts p ti st) = negative_count st + (if p > 0.5 then 0 else 1)"
  "critical_risk_count (update_counts p ti st) =
     critical_risk_count st + (if p > 0.5 \<and> p * 100 > 85 then 1 else 0)"
  "high_risk_count (update_counts p ti st) =
     high_risk_count st + (if p > 0.5 \<and> \<not> p * 100 > 85 \<and> p * 100 > 70 then 1 else 0)"
  "elements (update_counts p ti st) = elements st"
  "get_count (tumor_types_found (update_counts p ti st)) l =
     get_count (tumor_types_found st) l + (if p > 0.5 \<and> type ti = l then 1 else 0)"
  by (simp_all add: update_counts_def Let_def get_count_def)

lemma process_item_fields:
  "positive_count (process_item e i p img st) = positive_count st + (if p > 0.5 then 1 else 0)"
  "negative_count (process_item e i p img st) = negative_count st + (if p > 0.5 then 0 else 1)"
  "critical_risk_count (process_item e i p img st) =
     critical_risk_count st + (if p > 0.5 \<and> p * 100 > 85 then 1 else 0)"
  "high_risk_count (process_item e i p img st) =
     high_risk_count st + (if p > 0.5 \<and> \<not> p * 100 > 85 \<and> p * 100 > 70 then 1 else 0)"
  "elements (process_item e i p img st) =
     elements st @ [image_section e i p img (classify_tumor_type p img)]"
  "get_count (tumor_types_found (process_item e i p img st)) l =
     get_count (tumor_types_found st) l
       + (if p > 0.5 \<and> type (classify_tumor_type p img) = l then 1 else 0)"
  by (simp_all add: process_item_def Let_def update_counts_fields)


lemma update_counts_no_zero:
  "tumor_types_found st l \<noteq> Some 0 \<Longrightarrow> tumor_types_found (update_counts p ti st) l \<noteq> Some 0"
  by (simp add: update_counts_def Let_def)

lemma process_item_no_zero:
  "tumor_types_found st l \<noteq> Some 0 \<Longrightarrow> tumor_types_found (process_item e i p img st) l \<noteq> Some 0"
  by (simp add: process_item_def Let_def update_counts_no_zero)

lemma loop_positive_count:
  "positive_count (foldl (\<lambda>s (i, p). process_item e i p (imgs ! i) s) st xs) =
     positive_count st + length (filter (\<lambda>(i, p). p > 0.5) xs)"
  by (induction xs arbitrary: st) (simp_all add: process_item_fields split: prod.splits)

lemma loop_negative_count:
  "negative_count (foldl (\<lambda>s (i, p). process_item e i p (imgs ! i) s) st xs) =
     negative_count st + length (filter (\<lambda>(i, p). \<not> p > 0.5) xs)"
  by (induction xs arbitrary: st) (simp_all add: process_item_fields split: prod.splits)

lemma loop_critical_risk_count:
  "critical_risk_count (foldl (\<lambda>s (i, p). process_item e i p (imgs ! i) s) st xs) =
     critical_risk_count st + length (filter (\<lambda>(i, p). p > 0.5 \<and> p * 100 > 85) xs)"
  by (induction xs arbitrary: st) (simp_all add: process_item_fields split: prod.splits)

lemma loop_high_risk_count:
  "high_risk_count (foldl (\<lambda>s (i, p). process_item e i p (imgs ! i) s) st xs) =
     high_risk_count st
       + length (filter (\<lambda>(i, p). p > 0.5 \<and> \<not> p * 100 > 85 \<and> p * 100 > 70) xs)"
  by (induction xs arbitrary: st) (simp_all add: process_item_fields split: prod.splits)

lemma loop_elements:
  "elements (foldl (\<lambda>s (i, p). process_item e i p (imgs ! i) s) st xs) =
     elements st
       @ map (\<lambda>(i, p). image_section e i p (imgs ! i) (classify_tumor_type p (imgs ! i))) xs"
  by (induction xs arbitrary: st) (simp_all add: process_item_fields split: prod.splits)

lemma loop_get_count:
  "get_count (tumor_types_found (foldl (\<lambda>s (i, p). process_item e i p (imgs ! i) s) st xs)) l =
     get_count (tumor_types_found st) l
       + length (filter (\<lambda>(i, p). p > 0.5 \<and> type (classify_tumor_type p (imgs ! i)) = l) xs)"
  by (induction xs arbitrary: st) (simp_all add: process_item_fields split: prod.splits)

lemma loop_no_zero:
  "tumor_types_found st l \<noteq> Some 0 \<Longrightarrow>
     tumor_types_found (foldl (\<lambda>s (i, p). process_item e i p (imgs ! i) s) st xs) l \<noteq> Some 0"
  by (induction xs arbitrary: st) (simp_all add: process_item_no_zero split: prod.splits)

lemma length_filter_enumerate:
  "length (filter (\<lambda>(i, p). P p) (enumerate n xs)) = length (filter P xs)"
  by (induction xs arbitrary: n) simp_all

lemma initial_fields:
  "positive_count initial_state = 0" "negative_count initial_state = 0"
  "high_risk_count initial_state = 0" "critical_risk_count initial_state = 0"
  "elements initial_state = []" "tumor_types_found initial_state l = None"
  by (simp_all add: initial_state_def)

lemma initial_get_count: "get_count (tumor_types_found initial_state) l = 0"
  by (simp add: initial_state_def get_count_def)

lemma get_count_None_iff: "d l \<noteq> Some 0 \<Longrightarrow> d l = (if get_count d l = 0 then None else Some (get_count d l))"
  by (cases "d l") (simp_all add: get_count_def)


lemma image_section_explicit:
  "image_section e i p img ti =
     (if e (img_data img)
      then analysis (i + 1) (status_of (p * 100)) ti (if p > 0.5 then p * 100 else (1 - p) * 100)
      else error_text (i + 1) (type ti))"
  by (simp add: image_section_def Let_def algebra_simps)

lemma status_negative_iff: "(status_of (p * 100) = NEGATIVE_NO_TUMOR) = (\<not> p > 0.5)"
  by (simp add: status_of_def)

lemma compose_report_Inr:
  assumes "process_images e imgs 0 results initial_state = Inr st" and "results \<noteq> []"
  shows "compose_report e imgs results =
     Inr \<lparr>sections = elements st, total_scans = length results,
          positive_findings =
            (positive_count st, real (positive_count st) / real (length results) * 100),
          critical_risk_cases =
            (critical_risk_count st, real (critical_risk_count st) / real (length results) * 100),
          high_risk_cases =
            (high_risk_count st, real (high_risk_count st) / real (length results) * 100),
          negative_findings =
            (negative_count st, real (negative_count st) / real (length results) * 100),
          tumor_types = tumor_types_found st\<rparr>"
  using assms by (simp add: compose_report_def summary_statistics_def percentage_of_def)

text \<open>
  Claim C5: for every batch whose items all have an image, the loop returns, and in input
  order each item has one section; the section of a processed image carries the
  confidence \<open>p * 100\<close> if \<open>p > 0.5\<close> and \<open>(1 - p) * 100\<close> otherwise, and its status is the
  negative one exactly when \<open>p > 0.5\<close> fails. The positive count is the number of items
  with \<open>p > 0.5\<close>, the negative count the number of the others, the critical count the
  number of positive items with \<open>p * 100 > 85\<close>, the high count the number of positive
  items with \<open>85 \<ge> p * 100 > 70\<close>, and the histogram entry of a label is the number of
  positive items classified under it (no entry where there is none). For a non-empty
  batch the report carries these counters and the total \<open>length results\<close>. The witness is
  the batch \<open>[(0.92, imgA), (0.30, imgB)]\<close>.
\<close>

theorem report_loop_counts:
  assumes len: "length results \<le> length imgs"
  shows "\<exists>st. process_images e imgs 0 results initial_state = Inr st
     \<and> length (elements st) = length results
     \<and> (\<forall>i < length results.
          elements st ! i =
            (if e (img_data (imgs ! i))
             then analysis (i + 1) (status_of (results ! i * 100))
                    (classify_tumor_type (results ! i) (imgs ! i))
                    (if results ! i > 0.5 then results ! i * 100 else (1 - results ! i) * 100)
             else error_text (i + 1) (type (classify_tumor_type (results ! i) (imgs ! i))))
          \<and> (status_of (results ! i * 100) = NEGATIVE_NO_TUMOR) = (\<not> results ! i > 0.5))
     \<and> positive_count st = length (filter (\<lambda>p. p > 0.5) results)
     \<and> negative_count st = length (filter (\<lambda>p. \<not> p > 0.5) results)
     \<and> critical_risk_count st = length (filter (\<lambda>p. p > 0.5 \<and> p * 100 > 85) results)
     \<and> high_risk_count st
         = length (filter (\<lambda>p. p > 0.5 \<and> 85 \<ge> p * 100 \<and> p * 100 > 70) results)
     \<and> (\<forall>l. tumor_types_found st l =
          (let n = length (filter (\<lambda>(i, p). p > 0.5 \<and> type (classify_tumor_type p (imgs ! i)) = l)
                            (enumerate 0 results))
           in if n = 0 then None else Some n))
     \<and> (results \<noteq> [] \<longrightarrow>
          (\<exists>r. compose_report e imgs results = Inr r
             \<and> total_scans r = length results \<and> sections r = elements st
             \<and> fst (positive_findings r) = positive_count st
             \<and> fst (critical_risk_cases r) = critical_risk_count st
             \<and> fst (high_risk_cases r) = high_risk_count st
             \<and> fst (negative_findings r) = negative_count st
             \<and> tumor_types r = tumor_types_found st))"
proof -
  define st where
    "st = foldl (\<lambda>s (i, p). process_item e i p (imgs ! i) s) initial_state (enumerate 0 results)"
  have run: "process_images e imgs 0 results initial_state = Inr st"
    unfolding st_def using len by (simp add: process_images_Inr)
  have els: "elements st =
      map (\<lambda>(i, p). image_section e i p (imgs ! i) (classify_tumor_type p (imgs ! i)))
        (enumerate 0 results)"
    unfolding st_def by (simp add: loop_elements initial_fields)
  have n: "length (elements st) = length results"
    by (simp add: els)
  have sec: "\<forall>i < length results.
      elements st ! i =
        (if e (img_data (imgs ! i))
         then analysis (i + 1) (status_of (results ! i * 100))
                (classify_tumor_type (results ! i) (imgs ! i))
                (if results ! i > 0.5 then results ! i * 100 else (1 - results ! i) * 100)
         else error_text (i + 1) (type (classify_tumor_type (results ! i) (imgs ! i))))
      \<and> (status_of (results ! i * 100) = NEGATIVE_NO_TUMOR) = (\<not> results ! i > 0.5)"
    by (simp only: els status_negative_iff) (simp add: nth_enumerate_eq image_section_explicit)
  have pos: "positive_count st = length (filter (\<lambda>p. p > 0.5) results)"
    unfolding st_def by (simp only: loop_positive_count length_filter_enumerate initial_fields add_0)
  have neg: "negative_count st = length (filter (\<lambda>p. \<not> p > 0.5) results)"
    unfolding st_def by (simp only: loop_negative_count length_filter_enumerate initial_fields add_0)
  have crit: "critical_risk_count st = length (filter (\<lambda>p. p > 0.5 \<and> p * 100 > 85) results)"
    unfolding st_def
    by (simp only: loop_critical_risk_count length_filter_enumerate initial_fields add_0)
  have "high_risk_count st
      = length (filter (\<lambda>p. p > 0.5 \<and> \<not> p * 100 > 85 \<and> p * 100 > 70) results)"
    unfolding st_def
    by (simp only: loop_high_risk_count length_filter_enumerate initial_fields add_0)
  then have high: "high_risk_count st
      = length (filter (\<lambda>p. p > 0.5 \<and> 85 \<ge> p * 100 \<and> p * 100 > 70) results)"
    by (simp only: not_less)
  have nz: "tumor_types_found st l \<noteq> Some 0" for l
    unfolding st_def by (rule loop_no_zero) (simp add: initial_fields)
  have cnt: "get_count (tumor_types_found st) l =
      length (filter (\<lambda>(i, p). p > 0.5 \<and> type (classify_tumor_type p (imgs ! i)) = l)
               (enumerate 0 results))" for l
    unfolding st_def by (simp only: loop_get_count initial_get_count add_0)
  have hist: "\<forall>l. tumor_types_found st l =
      (let n = length (filter (\<lambda>(i, p). p > 0.5 \<and> type (classify_tumor_type p (imgs ! i)) = l)
                        (enumerate 0 results))
       in if n = 0 then None else Some n)"
  proof
    fix l
    have "tumor_types_found st l =
        (if get_count (tumor_types_found st) l = 0 then None
         else Some (get_count (tumor_types_found st) l))"
      by (rule get_count_None_iff [of "tumor_types_found st" l]) (rule nz)
    then show "tumor_types_found st l =
        (let n = length (filter (\<lambda>(i, p). p > 0.5 \<and> type (classify_tumor_type p (imgs ! i)) = l)
                          (enumerate 0 results))
         in if n = 0 then None else Some n)"
      by (simp only: cnt Let_def)
  qed
  have rep: "results \<noteq> [] \<longrightarrow>
      (\<exists>r. compose_report e imgs results = Inr r
         \<and> total_scans r = length results \<and> sections r = elements st
         \<and> fst (positive_findings r) = positive_count st
         \<and> fst (critical_risk_cases r) = critical_risk_count st
         \<and> fst (high_risk_cases r) = high_risk_count st
         \<and> fst (negative_findings r) = negative_count st
         \<and> tumor_types r = tumor_types_found st)"
    by (simp add: compose_report_Inr [OF run])
  from run n sec pos neg crit high hist rep show ?thesis by blast
qed


theorem report_loop_counts_witness:
  "length [0.92, 0.30 :: real] \<le> length [''imgA'', ''imgB'']
   \<and> [0.92, 0.30 :: real] \<noteq> []
   \<and> (\<exists>st r. process_images (\<lambda>_. True) [''imgA'', ''imgB''] 0 [0.92, 0.30] initial_state = Inr st
         \<and> compose_report (\<lambda>_. True) [''imgA'', ''imgB''] [0.92, 0.30] = Inr r
         \<and> total_scans r = 2
         \<and> fst (positive_findings r) = 1 \<and> fst (negative_findings r) = 1
         \<and> fst (critical_risk_cases r) = 1 \<and> fst (high_risk_cases r) = 0
         \<and> sections r ! 0
             = analysis 1 POSITIVE_CRITICAL_HIGH_RISK (classify_tumor_type 0.92 ''imgA'') 92
         \<and> sections r ! 1 = analysis 2 NEGATIVE_NO_TUMOR no_tumor_detected 70)"
proof -
  let ?rs = "[0.92, 0.30 :: real]"
  let ?imgs = "[''imgA'', ''imgB'']"
  have len: "length ?rs \<le> length ?imgs" by simp
  have ne: "?rs \<noteq> []" by simp
  have c: "classify_tumor_type 0.30 ''imgB'' = no_tumor_detected"
    by (rule classify_le_50) simp
  from report_loop_counts [OF len, of "\<lambda>_. True"] obtain st where
    run: "process_images (\<lambda>_. True) ?imgs 0 ?rs initial_state = Inr st"
    and sec: "\<forall>i < length ?rs.
      elements st ! i =
        (if True
         then analysis (i + 1) (status_of (?rs ! i * 100))
                (classify_tumor_type (?rs ! i) (?imgs ! i))
                (if ?rs ! i > 0.5 then ?rs ! i * 100 else (1 - ?rs ! i) * 100)
         else error_text (i + 1) (type (classify_tumor_type (?rs ! i) (?imgs ! i))))
      \<and> (status_of (?rs ! i * 100) = NEGATIVE_NO_TUMOR) = (\<not> ?rs ! i > 0.5)"
    and pos: "positive_count st = length (filter (\<lambda>p. p > 0.5) ?rs)"
    and neg: "negative_count st = length (filter (\<lambda>p. \<not> p > 0.5) ?rs)"
    and crit: "critical_risk_count st = length (filter (\<lambda>p. p > 0.5 \<and> p * 100 > 85) ?rs)"
    and high: "high_risk_count st
        = length (filter (\<lambda>p. p > 0.5 \<and> 85 \<ge> p * 100 \<and> p * 100 > 70) ?rs)"
    and hist: "\<forall>l. tumor_types_found st l =
          (let n = length (filter (\<lambda>(i, p). p > 0.5
                       \<and> type (classify_tumor_type p (?imgs ! i)) = l)
                     (enumerate 0 ?rs))
           in if n = 0 then None else Some n)"
    and rep: "?rs \<noteq> [] \<longrightarrow>
          (\<exists>r. compose_report (\<lambda>_. True) ?imgs ?rs = Inr r
             \<and> total_scans r = length ?rs \<and> sections r = elements st
             \<and> fst (positive_findings r) = positive_count st
             \<and> fst (critical_risk_cases r) = critical_risk_count st
             \<and> fst (high_risk_cases r) = high_risk_count st
             \<and> fst (negative_findings r) = negative_count st
             \<and> tumor_types r = tumor_types_found st)"
    by (elim exE conjE) (rule that; assumption)
  from rep ne obtain r where
    r: "compose_report (\<lambda>_. True) ?imgs ?rs = Inr r"
    and rf: "total_scans r = length ?rs" "sections r = elements st"
      "fst (positive_findings r) = positive_count st"
      "fst (critical_risk_cases r) = critical_risk_count st"
      "fst (high_risk_cases r) = high_risk_count st"
      "fst (negative_findings r) = negative_count st"
      "tumor_types r = tumor_types_found st"
    by blast
  have s0: "sections r ! 0
      = analysis 1 POSITIVE_CRITICAL_HIGH_RISK (classify_tumor_type 0.92 ''imgA'') 92"
    using sec [rule_format, of 0] by (simp add: rf status_of_def)
  have s1: "sections r ! 1 = analysis 2 NEGATIVE_NO_TUMOR no_tumor_detected 70"
    using sec [rule_format, of 1] c by (simp add: rf status_of_def)
  have t: "total_scans r = 2" by (simp add: rf)
  have p: "fst (positive_findings r) = 1" by (simp add: rf pos)
  have n: "fst (negative_findings r) = 1" by (simp add: rf neg)
  have cr: "fst (critical_risk_cases r) = 1" by (simp add: rf crit)
  have h: "fst (high_risk_cases r) = 0" by (simp add: rf high)
  from len ne run r s0 s1 t p n cr h show ?thesis by blast
qed

lemma process_images_Inr_length:
  "process_images e imgs 0 results st0 = Inr st \<Longrightarrow> length results \<le> length imgs"
proof (rule ccontr)
  assume r: "process_images e imgs 0 results st0 = Inr st"
  assume "\<not> length results \<le> length imgs"
  then have "process_images e imgs 0 results st0 = Inl IndexError"
    by (intro process_images_Inl) simp_all
  with r show False by simp
qed

lemma length_filter_split:
  "length (filter P xs) + length (filter (\<lambda>x. \<not> P x) xs) = length xs"
  by (induction xs) simp_all

lemma length_filter_two_le:
  "length (filter (\<lambda>x. P x \<and> A x) xs) + length (filter (\<lambda>x. P x \<and> \<not> A x \<and> B x) xs)
     \<le> length (filter P xs)"
  by (induction xs) simp_all

text \<open>
  Claim C9: whenever the loop returns, every item has incremented exactly one of the
  positive and negative counters, so their sum is the number of results (the
  \<^verbatim>\<open>total_images\<close> of the summary), and the critical and high counters together never
  exceed the positive counter.
\<close>

theorem loop_counter_invariants:
  "process_images e imgs 0 results initial_state = Inr st \<Longrightarrow>
     positive_count st + negative_count st = length results
     \<and> critical_risk_count st + high_risk_count st \<le> positive_count st"
proof -
  assume r: "process_images e imgs 0 results initial_state = Inr st"
  then have "length results \<le> length imgs" by (rule process_images_Inr_length)
  then have "process_images e imgs 0 results initial_state =
      Inr (foldl (\<lambda>s (i, p). process_item e i p (imgs ! i) s) initial_state (enumerate 0 results))"
    by (simp add: process_images_Inr)
  with r have st: "st =
      foldl (\<lambda>s (i, p). process_item e i p (imgs ! i) s) initial_state (enumerate 0 results)"
    by simp
  have pos: "positive_count st = length (filter (\<lambda>p. p > 0.5) results)"
    unfolding st by (simp only: loop_positive_count length_filter_enumerate initial_fields add_0)
  have neg: "negative_count st = length (filter (\<lambda>p. \<not> p > 0.5) results)"
    unfolding st by (simp only: loop_negative_count length_filter_enumerate initial_fields add_0)
  have crit: "critical_risk_count st = length (filter (\<lambda>p. p > 0.5 \<and> p * 100 > 85) results)"
    unfolding st
    by (simp only: loop_critical_risk_count length_filter_enumerate initial_fields add_0)
  have high: "high_risk_count st
      = length (filter (\<lambda>p. p > 0.5 \<and> \<not> p * 100 > 85 \<and> p * 100 > 70) results)"
    unfolding st
    by (simp only: loop_high_risk_count length_filter_enumerate initial_fields add_0)
  have a: "positive_count st + negative_count st = length results"
    by (simp only: pos neg length_filter_split)
  have b: "critical_risk_count st + high_risk_count st \<le> positive_count st"
    by (simp only: pos crit high length_filter_two_le)
  from a b show ?thesis ..
qed

theorem loop_counter_invariants_witness:
  "\<exists>st. process_images (\<lambda>_. True) [''imgA'', ''imgB'', ''imgC''] 0 [0.92, 0.30, 0.80] initial_state
          = Inr st
     \<and> positive_count st + negative_count st = 3
     \<and> critical_risk_count st + high_risk_count st \<le> positive_count st"
proof -
  let ?rs = "[0.92, 0.30, 0.80 :: real]"
  let ?imgs = "[''imgA'', ''imgB'', ''imgC'']"
  obtain st where r: "process_images (\<lambda>_. True) ?imgs 0 ?rs initial_state = Inr st"
    by (simp add: process_images_Inr)
  from loop_counter_invariants [OF r] r show ?thesis by auto
qed

text \<open>
  Claim C10: with more results than images, \<^verbatim>\<open>images_base64[idx]\<close> raises while the
  arguments of the classification are evaluated, outside the \<^verbatim>\<open>try\<close> of the item. The
  loop ends with \<open>IndexError\<close>, whatever the images do, and the handler answers with
  status 500: there is no report, hence no section and no placeholder.
\<close>

theorem more_results_than_images_fails:
  "length imgs < length results \<Longrightarrow>
     process_images e imgs 0 results initial_state = Inl IndexError
     \<and> compose_report e imgs results = Inl IndexError
     \<and> generate_report e imgs results = error_500 IndexError"
proof -
  assume "length imgs < length results"
  then have "process_images e imgs 0 results initial_state = Inl IndexError"
    by (intro process_images_Inl) simp_all
  then show ?thesis by (simp add: compose_report_def generate_report_def)
qed

theorem more_results_than_images_fails_witness:
  "length [''imgA''] < length [0.92, 0.30 :: real]
   \<and> generate_report (\<lambda>_. False) [''imgA''] [0.92, 0.30] = error_500 IndexError
   \<and> generate_report (\<lambda>_. True) [''imgA''] [0.92, 0.30] = error_500 IndexError"
proof -
  have l: "length [''imgA''] < length [0.92, 0.30 :: real]" by simp
  from l more_results_than_images_fails [OF l, of "\<lambda>_. False"]
    more_results_than_images_fails [OF l, of "\<lambda>_. True"]
  show ?thesis by blast
qed

text \<open>
  Claim C7 asks that an empty batch gives either a documented empty-input error or a
  summary whose percentages are 0. The code, evaluated at the empty result list: the loop
  does nothing, \<^verbatim>\<open>total_images\<close> is 0, and the first percentage raises
  \<^verbatim>\<open>ZeroDivisionError\<close>, which reaches the handler as a status 500.
\<close>

theorem empty_batch_division_by_zero:
  "compose_report e imgs [] = Inl ZeroDivisionError
   \<and> generate_report e imgs [] = error_500 ZeroDivisionError"
  by (simp add: generate_report_def compose_report_def summary_statistics_def percentage_of_def)

lemma loop_histogram:
  "tumor_types_found
     (foldl (\<lambda>s (i, p). process_item e i p (imgs ! i) s) initial_state xs) l =
     (if length (filter (\<lambda>(i, p). p > 0.5 \<and> type (classify_tumor_type p (imgs ! i)) = l) xs) = 0
      then None
      else Some (length
        (filter (\<lambda>(i, p). p > 0.5 \<and> type (classify_tumor_type p (imgs ! i)) = l) xs)))"
proof -
  let ?st = "foldl (\<lambda>s (i, p). process_item e i p (imgs ! i) s) initial_state xs"
  have nz: "tumor_types_found ?st l \<noteq> Some 0"
    by (rule loop_no_zero) (simp add: initial_fields)
  have "tumor_types_found ?st l =
      (if get_count (tumor_types_found ?st) l = 0 then None
       else Some (get_count (tumor_types_found ?st) l))"
    by (rule get_count_None_iff [of "tumor_types_found ?st" l]) (rule nz)
  then show ?thesis
    by (simp only: loop_get_count initial_get_count add_0)
qed

lemma loop_tumor_types_indep:
  "tumor_types_found
     (foldl (\<lambda>s (i, p). process_item e i p (imgs ! i) s) initial_state xs) =
   tumor_types_found
     (foldl (\<lambda>s (i, p). process_item e' i p (imgs ! i) s) initial_state xs)"
  by (rule ext) (simp only: loop_histogram)

lemma classify_in_table:
  "classify_tumor_type p s \<in>
     set ([no_tumor_detected, indeterminate, glioblastoma, high_grade_astrocytoma]
          @ tumor_types_high @ tumor_types_moderate)"
proof -
  consider "p * 100 \<le> 50" | "50 < p * 100" "p * 100 \<le> 55" | "55 < p * 100" "p * 100 \<le> 70"
    | "70 < p * 100" "p * 100 \<le> 85" | "85 < p * 100"
    by linarith
  then show ?thesis
  proof cases
    case 1
    then show ?thesis by (simp add: classify_le_50)
  next
    case 2
    then show ?thesis by (simp add: classify_50_55)
  next
    case 3
    then show ?thesis using nth_mem_moderate [of "get_image_hash s"] by (simp add: classify_55_70)
  next
    case 4
    then show ?thesis using nth_mem_high [of "get_image_hash s"] by (simp add: classify_70_85)
  next
    case 5
    then show ?thesis by (simp add: classify_gt_85)
  qed
qed

lemma table_types_distinct:
  "distinct (map type ([no_tumor_detected, indeterminate, glioblastoma, high_grade_astrocytoma]
                       @ tumor_types_high @ tumor_types_moderate))"
  by (simp only: map_append types_high types_moderate list.map type_no_tumor type_indeterminate
      type_glioblastoma type_high_grade) simp

lemma type_determines_record:
  "type (classify_tumor_type p s) = type (classify_tumor_type p' s') \<Longrightarrow>
     classify_tumor_type p s = classify_tumor_type p' s'"
proof -
  let ?table = "[no_tumor_detected, indeterminate, glioblastoma, high_grade_astrocytoma]
                @ tumor_types_high @ tumor_types_moderate"
  assume eq: "type (classify_tumor_type p s) = type (classify_tumor_type p' s')"
  have "inj_on type (set ?table)"
    using table_types_distinct by (simp only: distinct_map)
  then show ?thesis
    using eq classify_in_table [of p s] classify_in_table [of p' s'] by (rule inj_onD)
qed


lemma generate_report_pdf:
  assumes "results \<noteq> []" and "length results \<le> length imgs"
  shows "generate_report e imgs results =
     pdf_attachment
       \<lparr>sections = map (\<lambda>(i, p). image_section e i p (imgs ! i) (classify_tumor_type p (imgs ! i)))
                    (enumerate 0 results),
        total_scans = length results,
        positive_findings =
          (length (filter (\<lambda>p. p > 0.5) results),
           real (length (filter (\<lambda>p. p > 0.5) results)) / real (length results) * 100),
        critical_risk_cases =
          (length (filter (\<lambda>p. p > 0.5 \<and> p * 100 > 85) results),
           real (length (filter (\<lambda>p. p > 0.5 \<and> p * 100 > 85) results))
             / real (length results) * 100),
        high_risk_cases =
          (length (filter (\<lambda>p. p > 0.5 \<and> \<not> p * 100 > 85 \<and> p * 100 > 70) results),
           real (length (filter (\<lambda>p. p > 0.5 \<and> \<not> p * 100 > 85 \<and> p * 100 > 70) results))
             / real (length results) * 100),
        negative_findings =
          (length (filter (\<lambda>p. \<not> p > 0.5) results),
           real (length (filter (\<lambda>p. \<not> p > 0.5) results)) / real (length results) * 100),
        tumor_types =
          tumor_types_found
            (foldl (\<lambda>s (i, p). process_item (\<lambda>_. True) i p (imgs ! i) s) initial_state
               (enumerate 0 results))\<rparr>"
proof -
  define st where
    "st = foldl (\<lambda>s (i, p). process_item e i p (imgs ! i) s) initial_state (enumerate 0 results)"
  have run: "process_images e imgs 0 results initial_state = Inr st"
    unfolding st_def using assms(2) by (simp add: process_images_Inr)
  have els: "elements st =
      map (\<lambda>(i, p). image_section e i p (imgs ! i) (classify_tumor_type p (imgs ! i)))
        (enumerate 0 results)"
    unfolding st_def by (simp add: loop_elements initial_fields)
  have pos: "positive_count st = length (filter (\<lambda>p. p > 0.5) results)"
    unfolding st_def by (simp only: loop_positive_count length_filter_enumerate initial_fields add_0)
  have neg: "negative_count st = length (filter (\<lambda>p. \<not> p > 0.5) results)"
    unfolding st_def by (simp only: loop_negative_count length_filter_enumerate initial_fields add_0)
  have crit: "critical_risk_count st = length (filter (\<lambda>p. p > 0.5 \<and> p * 100 > 85) results)"
    unfolding st_def
    by (simp only: loop_critical_risk_count length_filter_enumerate initial_fields add_0)
  have high: "high_risk_count st
      = length (filter (\<lambda>p. p > 0.5 \<and> \<not> p * 100 > 85 \<and> p * 100 > 70) results)"
    unfolding st_def
    by (simp only: loop_high_risk_count length_filter_enumerate initial_fields add_0)
  have tt: "tumor_types_found st =
      tumor_types_found
        (foldl (\<lambda>s (i, p). process_item (\<lambda>_. True) i p (imgs ! i) s) initial_state
           (enumerate 0 results))"
    unfolding st_def by (rule loop_tumor_types_indep)
  show ?thesis
    unfolding generate_report_def compose_report_Inr [OF run assms(1)]
    by (simp only: els pos neg crit high tt sum.case)
qed

text \<open>
  Claim C8: in a non-empty batch whose items all have an image, an item \<open>k\<close> whose image
  fails to decode or embed does not stop the report. The PDF is still produced with one
  section per item; the section of item \<open>k\<close> is the error text, which names the \<^verbatim>\<open>type\<close>
  of the record classified for it before the failure, and that label determines the
  record, since no two records of the table share it. Every item whose image embeds has
  its analysis section (status, record and confidence), and only the items whose image
  fails have the error text. The counters are the counts over all the results, failed
  items included. The counters, percentages and
  histogram are those of any other outcome of the image processing (in particular, of
  the run in which no image fails), and every item on which two runs agree has the same
  section in both.
\<close>

theorem item_failure_is_local:
  assumes ne: "results \<noteq> []" and len: "length results \<le> length imgs"
    and k: "k < length results" and fail: "\<not> e (img_data (imgs ! k))"
  shows "\<exists>r. generate_report e imgs results = pdf_attachment r
      \<and> length (sections r) = length results
      \<and> sections r ! k = error_text (k + 1) (type (classify_tumor_type (results ! k) (imgs ! k)))
      \<and> (\<forall>i < length results.
            sections r ! i =
              (if e (img_data (imgs ! i))
               then analysis (i + 1) (status_of (results ! i * 100))
                      (classify_tumor_type (results ! i) (imgs ! i))
                      (if results ! i > 0.5 then results ! i * 100 else (1 - results ! i) * 100)
               else error_text (i + 1) (type (classify_tumor_type (results ! i) (imgs ! i)))))
      \<and> total_scans r = length results
      \<and> fst (positive_findings r) = length (filter (\<lambda>p. p > 0.5) results)
      \<and> fst (negative_findings r) = length (filter (\<lambda>p. \<not> p > 0.5) results)
      \<and> fst (critical_risk_cases r) = length (filter (\<lambda>p. p > 0.5 \<and> p * 100 > 85) results)
      \<and> fst (high_risk_cases r)
          = length (filter (\<lambda>p. p > 0.5 \<and> \<not> p * 100 > 85 \<and> p * 100 > 70) results)
      \<and> (\<forall>p s. type (classify_tumor_type p s) = type (classify_tumor_type (results ! k) (imgs ! k))
            \<longrightarrow> classify_tumor_type p s = classify_tumor_type (results ! k) (imgs ! k))
      \<and> (\<forall>e'. \<exists>r'. generate_report e' imgs results = pdf_attachment r'
            \<and> total_scans r' = total_scans r
            \<and> positive_findings r' = positive_findings r
            \<and> critical_risk_cases r' = critical_risk_cases r
            \<and> high_risk_cases r' = high_risk_cases r
            \<and> negative_findings r' = negative_findings r
            \<and> tumor_types r' = tumor_types r
            \<and> (\<forall>i < length results.
                  e' (img_data (imgs ! i)) = e (img_data (imgs ! i))
                    \<longrightarrow> sections r' ! i = sections r ! i))"
proof -
  note pdf = generate_report_pdf [OF ne len]
  obtain r where r: "generate_report e imgs results = pdf_attachment r"
    by (simp add: pdf)
  have secs: "sections r =
      map (\<lambda>(i, p). image_section e i p (imgs ! i) (classify_tumor_type p (imgs ! i)))
        (enumerate 0 results)"
    using r by (auto simp add: pdf)
  have n: "length (sections r) = length results"
    by (simp add: secs)
  have nth: "sections r ! i =
      image_section e i (results ! i) (imgs ! i) (classify_tumor_type (results ! i) (imgs ! i))"
    if "i < length results" for i
    using that by (simp add: secs nth_enumerate_eq)
  have sk: "sections r ! k
      = error_text (k + 1) (type (classify_tumor_type (results ! k) (imgs ! k)))"
    using fail by (simp add: nth [OF k] image_section_explicit)
  have each: "\<forall>i < length results.
      sections r ! i =
        (if e (img_data (imgs ! i))
         then analysis (i + 1) (status_of (results ! i * 100))
                (classify_tumor_type (results ! i) (imgs ! i))
                (if results ! i > 0.5 then results ! i * 100 else (1 - results ! i) * 100)
         else error_text (i + 1) (type (classify_tumor_type (results ! i) (imgs ! i))))"
  proof (intro allI impI)
    fix i
    assume "i < length results"
    then show "sections r ! i =
        (if e (img_data (imgs ! i))
         then analysis (i + 1) (status_of (results ! i * 100))
                (classify_tumor_type (results ! i) (imgs ! i))
                (if results ! i > 0.5 then results ! i * 100 else (1 - results ! i) * 100)
         else error_text (i + 1) (type (classify_tumor_type (results ! i) (imgs ! i))))"
      by (simp only: nth image_section_explicit)
  qed
  have cnt: "total_scans r = length results"
    "fst (positive_findings r) = length (filter (\<lambda>p. p > 0.5) results)"
    "fst (negative_findings r) = length (filter (\<lambda>p. \<not> p > 0.5) results)"
    "fst (critical_risk_cases r) = length (filter (\<lambda>p. p > 0.5 \<and> p * 100 > 85) results)"
    "fst (high_risk_cases r)
      = length (filter (\<lambda>p. p > 0.5 \<and> \<not> p * 100 > 85 \<and> p * 100 > 70) results)"
    using r by (auto simp add: pdf)
  have inj: "\<forall>p s. type (classify_tumor_type p s) = type (classify_tumor_type (results ! k) (imgs ! k))
            \<longrightarrow> classify_tumor_type p s = classify_tumor_type (results ! k) (imgs ! k)"
    using type_determines_record by blast
  have other: "\<exists>r'. generate_report e' imgs results = pdf_attachment r'
            \<and> total_scans r' = total_scans r
            \<and> positive_findings r' = positive_findings r
            \<and> critical_risk_cases r' = critical_risk_cases r
            \<and> high_risk_cases r' = high_risk_cases r
            \<and> negative_findings r' = negative_findings r
            \<and> tumor_types r' = tumor_types r
            \<and> (\<forall>i < length results.
                  e' (img_data (imgs ! i)) = e (img_data (imgs ! i))
                    \<longrightarrow> sections r' ! i = sections r ! i)" for e'
  proof -
    obtain r' where r': "generate_report e' imgs results = pdf_attachment r'"
      by (simp add: generate_report_pdf [OF ne len])
    have secs': "sections r' =
        map (\<lambda>(i, p). image_section e' i p (imgs ! i) (classify_tumor_type p (imgs ! i)))
          (enumerate 0 results)"
      using r' by (auto simp add: generate_report_pdf [OF ne len])
    have same: "total_scans r' = total_scans r" "positive_findings r' = positive_findings r"
      "critical_risk_cases r' = critical_risk_cases r" "high_risk_cases r' = high_risk_cases r"
      "negative_findings r' = negative_findings r" "tumor_types r' = tumor_types r"
      using r r' by (auto simp add: generate_report_pdf [OF ne len])
    have "sections r' ! i = sections r ! i"
      if "i < length results" and "e' (img_data (imgs ! i)) = e (img_data (imgs ! i))" for i
      using that by (simp add: secs secs' nth_enumerate_eq image_section_def)
    with r' same show ?thesis by blast
  qed
  from r n sk each cnt inj other show ?thesis by blast
qed


theorem item_failure_is_local_witness:
  "[0.92, 0.30 :: real] \<noteq> [] \<and> length [0.92, 0.30 :: real] \<le> length [''imgA'', ''imgB'']
   \<and> 0 < length [0.92, 0.30 :: real]
   \<and> \<not> (\<lambda>s. s \<noteq> ''imgA'') (img_data ([''imgA'', ''imgB''] ! 0))
   \<and> (\<exists>r r'. generate_report (\<lambda>s. s \<noteq> ''imgA'') [''imgA'', ''imgB''] [0.92, 0.30]
                 = pdf_attachment r
         \<and> length (sections r) = 2
         \<and> sections r ! 0 = error_text 1 (type (classify_tumor_type 0.92 ''imgA''))
         \<and> sections r ! 1 = analysis 2 NEGATIVE_NO_TUMOR no_tumor_detected 70
         \<and> total_scans r = 2
         \<and> fst (positive_findings r) = 1 \<and> fst (negative_findings r) = 1
         \<and> fst (critical_risk_cases r) = 1 \<and> fst (high_risk_cases r) = 0
         \<and> generate_report (\<lambda>_. True) [''imgA'', ''imgB''] [0.92, 0.30] = pdf_attachment r'
         \<and> positive_findings r' = positive_findings r
         \<and> critical_risk_cases r' = critical_risk_cases r
         \<and> high_risk_cases r' = high_risk_cases r
         \<and> negative_findings r' = negative_findings r
         \<and> tumor_types r' = tumor_types r
         \<and> sections r' ! 1 = sections r ! 1)"
proof -
  let ?rs = "[0.92, 0.30 :: real]"
  let ?imgs = "[''imgA'', ''imgB'']"
  let ?e = "\<lambda>s. s \<noteq> ''imgA''"
  have ne: "?rs \<noteq> []" by simp
  have len: "length ?rs \<le> length ?imgs" by simp
  have k: "0 < length ?rs" by simp
  have fail: "\<not> ?e (img_data (?imgs ! 0))" by (simp add: img_data_def)
  have ok: "(\<lambda>_. True) (img_data (?imgs ! 1)) = ?e (img_data (?imgs ! 1))"
    by (simp add: img_data_def)
  from item_failure_is_local [of ?rs ?imgs 0 ?e, OF ne len k fail] obtain r where
    r: "generate_report ?e ?imgs ?rs = pdf_attachment r"
    and n: "length (sections r) = length ?rs"
    and s: "sections r ! 0 = error_text (0 + 1) (type (classify_tumor_type (?rs ! 0) (?imgs ! 0)))"
    and each: "\<forall>i < length ?rs.
        sections r ! i =
          (if ?e (img_data (?imgs ! i))
           then analysis (i + 1) (status_of (?rs ! i * 100))
                  (classify_tumor_type (?rs ! i) (?imgs ! i))
                  (if ?rs ! i > 0.5 then ?rs ! i * 100 else (1 - ?rs ! i) * 100)
           else error_text (i + 1) (type (classify_tumor_type (?rs ! i) (?imgs ! i))))"
    and cnt: "total_scans r = length ?rs"
      "fst (positive_findings r) = length (filter (\<lambda>p. p > 0.5) ?rs)"
      "fst (negative_findings r) = length (filter (\<lambda>p. \<not> p > 0.5) ?rs)"
      "fst (critical_risk_cases r) = length (filter (\<lambda>p. p > 0.5 \<and> p * 100 > 85) ?rs)"
      "fst (high_risk_cases r)
        = length (filter (\<lambda>p. p > 0.5 \<and> \<not> p * 100 > 85 \<and> p * 100 > 70) ?rs)"
    and o: "\<forall>e'. \<exists>r'. generate_report e' ?imgs ?rs = pdf_attachment r'
            \<and> total_scans r' = total_scans r
            \<and> positive_findings r' = positive_findings r
            \<and> critical_risk_cases r' = critical_risk_cases r
            \<and> high_risk_cases r' = high_risk_cases r
            \<and> negative_findings r' = negative_findings r
            \<and> tumor_types r' = tumor_types r
            \<and> (\<forall>i < length ?rs.
                  e' (img_data (?imgs ! i)) = ?e (img_data (?imgs ! i))
                    \<longrightarrow> sections r' ! i = sections r ! i)"
    by (elim exE conjE) (rule that; assumption)
  from o [rule_format, of "\<lambda>_. True"] obtain r' where
    r': "generate_report (\<lambda>_. True) ?imgs ?rs = pdf_attachment r'"
    and same: "positive_findings r' = positive_findings r"
      "critical_risk_cases r' = critical_risk_cases r" "high_risk_cases r' = high_risk_cases r"
      "negative_findings r' = negative_findings r" "tumor_types r' = tumor_types r"
    and rest: "\<forall>i < length ?rs.
        (\<lambda>_. True) (img_data (?imgs ! i)) = ?e (img_data (?imgs ! i))
          \<longrightarrow> sections r' ! i = sections r ! i"
    by (elim exE conjE) (rule that; assumption)
  have s1: "sections r' ! 1 = sections r ! 1"
    using rest [rule_format, of 1] ok by simp
  have n2: "length (sections r) = 2" using n by simp
  have s0: "sections r ! 0 = error_text 1 (type (classify_tumor_type 0.92 ''imgA''))"
    using s by simp
  have c: "classify_tumor_type 0.30 ''imgB'' = no_tumor_detected"
    by (rule classify_le_50) simp
  have a1: "sections r ! 1 = analysis 2 NEGATIVE_NO_TUMOR no_tumor_detected 70"
    using each [rule_format, of 1] c by (simp add: status_of_def img_data_def)
  have t: "total_scans r = 2" by (simp add: cnt)
  have cp: "fst (positive_findings r) = 1" by (simp add: cnt)
  have cn: "fst (negative_findings r) = 1" by (simp add: cnt)
  have cc: "fst (critical_risk_cases r) = 1" by (simp add: cnt)
  have ch: "fst (high_risk_cases r) = 0" by (simp add: cnt)
  from ne len k fail r n2 s0 a1 t cp cn cc ch r' same s1 show ?thesis by blast
qed

end
